theory Spec2Isabelle
  imports Complex_Main
begin

section \<open>Data model\<close>

text \<open>
  JavaScript numbers are modelled as reals where the source computes with fractions
  (positions, velocities, the game timer) and as integers where the source only counts
  (\<open>artifacts\<close>, \<open>memories\<close>, scores after \<open>Math.floor\<close>).
\<close>

datatype vec3 = Vector3 (vx: real) (vy: real) (vz: real)

datatype box3 = Box3 (bmin: vec3) (bmax: vec3)

text \<open>The item data handed to \<open>collectMemory\<close>: its \<open>id\<close> and its payload.\<close>

record memoryData =
  mem_id :: string
  mem_content :: string

text \<open>\<open>Game.state\<close>, as the constructor of \<open>Game\<close> sets it up.\<close>

record game_state =
  artifacts :: int
  memories :: int
  collectedMemories :: "memoryData list"
  depth :: real
  gameTimer :: real
  gameOverReason :: "string option"
  gameWon :: bool
  finalScore :: int
  scoreFromLastAttempt :: "int option"

section \<open>Score\<close>

text \<open>\<open>Game.calculateScore(isWin)\<close>.\<close>

definition calculateScore :: "game_state \<Rightarrow> bool \<Rightarrow> int" where
  "calculateScore s isWin =
     (let BaseTimeScore = (10000 :: real);
          PenaltyPerSecond = (10 :: real);
          PointsPerArtifact = (1000 :: real);
          PointsPerMemory = (750 :: real);
          WinBonus = (1000 :: real);
          elapsedSeconds = gameTimer s;
          numArtifacts = real_of_int (artifacts s);
          numMemories = real_of_int (memories s);
          TimeScore = max 0 (BaseTimeScore - (elapsedSeconds * PenaltyPerSecond));
          CollectibleScore = (numArtifacts * PointsPerArtifact) + (numMemories * PointsPerMemory);
          CalculatedScore = TimeScore + CollectibleScore;
          CalculatedScore' = (if isWin then CalculatedScore + WinBonus else CalculatedScore)
      in \<lfloor>CalculatedScore'\<rfloor>)"

text \<open>The score block written out inside \<open>Game.gameOver\<close>.\<close>

definition gameOver_score :: "game_state \<Rightarrow> int" where
  "gameOver_score s =
     (let BaseTimeScore = (10000 :: real);
          PenaltyPerSecond = (10 :: real);
          PointsPerArtifact = (1000 :: real);
          PointsPerMemory = (750 :: real);
          elapsedSeconds = gameTimer s;
          numArtifacts = real_of_int (artifacts s);
          numMemories = real_of_int (memories s);
          TimeScore = max 0 (BaseTimeScore - (elapsedSeconds * PenaltyPerSecond));
          CollectibleScore = (numArtifacts * PointsPerArtifact) + (numMemories * PointsPerMemory);
          CalculatedScore = TimeScore + CollectibleScore
      in \<lfloor>CalculatedScore\<rfloor>)"

text \<open>The immediately-invoked arrow function inside \<open>Game.respawnPlayer\<close>.\<close>

definition respawn_inline_score :: "game_state \<Rightarrow> int" where
  "respawn_inline_score s =
     (let BaseTimeScore = (10000 :: real);
          PenaltyPerSecond = (10 :: real);
          PointsPerArtifact = (1000 :: real);
          PointsPerMemory = (750 :: real);
          elapsedSeconds = gameTimer s;
          numArtifacts = real_of_int (artifacts s);
          numMemories = real_of_int (memories s);
          TimeScore = max 0 (BaseTimeScore - (elapsedSeconds * PenaltyPerSecond));
          CollectibleScore = (numArtifacts * PointsPerArtifact) + (numMemories * PointsPerMemory)
      in \<lfloor>TimeScore + CollectibleScore\<rfloor>)"

section \<open>Vectors and boxes\<close>

text \<open>
  The methods of the rendering library's \<open>Vector3\<close> and \<open>Box3\<close> that the player code
  calls: \<open>add\<close>, \<open>sub\<close>, \<open>multiplyScalar\<close>, \<open>dot\<close>, \<open>addScaledVector\<close>, and
  \<open>isEmpty\<close>, \<open>getCenter\<close>, \<open>getSize\<close>, \<open>intersectsBox\<close>. An empty box has centre and
  size zero; boxes that only touch do intersect.
\<close>

definition vadd :: "vec3 \<Rightarrow> vec3 \<Rightarrow> vec3" where
  "vadd a b = Vector3 (vx a + vx b) (vy a + vy b) (vz a + vz b)"

definition vsub :: "vec3 \<Rightarrow> vec3 \<Rightarrow> vec3" where
  "vsub a b = Vector3 (vx a - vx b) (vy a - vy b) (vz a - vz b)"

definition multiplyScalar :: "vec3 \<Rightarrow> real \<Rightarrow> vec3" where
  "multiplyScalar a k = Vector3 (vx a * k) (vy a * k) (vz a * k)"

definition dot :: "vec3 \<Rightarrow> vec3 \<Rightarrow> real" where
  "dot a b = vx a * vx b + vy a * vy b + vz a * vz b"

definition addScaledVector :: "vec3 \<Rightarrow> vec3 \<Rightarrow> real \<Rightarrow> vec3" where
  "addScaledVector a v k = Vector3 (vx a + vx v * k) (vy a + vy v * k) (vz a + vz v * k)"

definition isEmpty :: "box3 \<Rightarrow> bool" where
  "isEmpty b \<longleftrightarrow>
     vx (bmax b) < vx (bmin b) \<or> vy (bmax b) < vy (bmin b) \<or> vz (bmax b) < vz (bmin b)"

definition getCenter :: "box3 \<Rightarrow> vec3" where
  "getCenter b =
     (if isEmpty b then Vector3 0 0 0 else multiplyScalar (vadd (bmin b) (bmax b)) 0.5)"

definition getSize :: "box3 \<Rightarrow> vec3" where
  "getSize b = (if isEmpty b then Vector3 0 0 0 else vsub (bmax b) (bmin b))"

definition intersectsBox :: "box3 \<Rightarrow> box3 \<Rightarrow> bool" where
  "intersectsBox this box \<longleftrightarrow>
     vx (bmax box) \<ge> vx (bmin this) \<and> vx (bmin box) \<le> vx (bmax this) \<and>
     vy (bmax box) \<ge> vy (bmin this) \<and> vy (bmin box) \<le> vy (bmax this) \<and>
     vz (bmax box) \<ge> vz (bmin this) \<and> vz (bmin box) \<le> vz (bmax this)"

section \<open>Player\<close>

text \<open>
  The fields of \<open>Player\<close> that movement and collision read or write. \<open>bounds\<close> is the
  axis-aligned extent of the player's mesh group relative to \<open>mesh.position\<close>; it depends
  on the geometry and the rotation, which position changes leave alone.
\<close>

record player =
  mesh_position :: vec3
  bounds :: box3
  hitbox :: box3
  velocity :: vec3
  isGrounded :: bool
  isJumping :: bool
  isFalling :: bool

text \<open>
  \<open>new THREE.Box3().setFromObject(this.mesh)\<close>: the world-space box of the mesh group,
  that is its extent moved to the mesh position.
\<close>

definition setFromObject :: "player \<Rightarrow> box3" where
  "setFromObject p =
     Box3 (vadd (mesh_position p) (bmin (bounds p))) (vadd (mesh_position p) (bmax (bounds p)))"

subsection \<open>JavaScript values and property reads\<close>

text \<open>
  What a caller can hand to \<open>setPosition\<close>: \<open>undefined\<close>, \<open>null\<close>, a boolean, a number,
  \<open>NaN\<close>, a string, an instance of \<open>THREE.Vector3\<close> with whatever its \<open>x\<close>, \<open>y\<close>, \<open>z\<close> hold,
  or any other object, given by its data properties. Objects whose property reads run code
  (accessors, proxies) are not values of this type.
\<close>

datatype js_error = TypeError

datatype js_value =
    JUndefined
  | JNull
  | JBool bool
  | JNum real
  | JNaN
  | JStr string
  | JVector3 js_value js_value js_value
  | JObject "(string \<times> js_value) list"

text \<open>What \<open>!v\<close> negates.\<close>

fun truthy :: "js_value \<Rightarrow> bool" where
  "truthy JUndefined = False"
| "truthy JNull = False"
| "truthy (JBool b) = b"
| "truthy (JNum r) = (r \<noteq> 0)"
| "truthy JNaN = False"
| "truthy (JStr s) = (s \<noteq> [])"
| "truthy (JVector3 a b c) = True"
| "truthy (JObject ps) = True"

text \<open>\<open>v instanceof THREE.Vector3\<close>.\<close>

fun instanceofVector3 :: "js_value \<Rightarrow> bool" where
  "instanceofVector3 (JVector3 a b c) = True"
| "instanceofVector3 v = False"

text \<open>
  The property read \<open>v.k\<close>: a \<open>TypeError\<close> on \<open>undefined\<close> and \<open>null\<close>, the property's value
  on an object, \<open>undefined\<close> where there is no such property.
\<close>

fun getProp :: "js_value \<Rightarrow> string \<Rightarrow> js_error + js_value" where
  "getProp JUndefined k = Inl TypeError"
| "getProp JNull k = Inl TypeError"
| "getProp (JVector3 a b c) k =
     Inr (if k = ''x'' then a else if k = ''y'' then b else if k = ''z'' then c else JUndefined)"
| "getProp (JObject ps) k = Inr (case map_of ps k of Some v \<Rightarrow> v | None \<Rightarrow> JUndefined)"
| "getProp (JStr s) k = Inr (if k = ''length'' then JNum (real (length s)) else JUndefined)"
| "getProp (JBool b) k = Inr JUndefined"
| "getProp (JNum r) k = Inr JUndefined"
| "getProp JNaN k = Inr JUndefined"

text \<open>\<open>a || b\<close>.\<close>

definition jsOr :: "js_value \<Rightarrow> js_value \<Rightarrow> js_value" where
  "jsOr a b = (if truthy a then a else b)"

text \<open>The three reads \<open>v.x\<close>, \<open>v.y\<close>, \<open>v.z\<close>, in this order.\<close>

definition readXYZ :: "js_value \<Rightarrow> js_error + (js_value \<times> js_value \<times> js_value)" where
  "readXYZ v =
     (case getProp v ''x'' of
        Inl e \<Rightarrow> Inl e
      | Inr a \<Rightarrow>
          (case getProp v ''y'' of
             Inl e \<Rightarrow> Inl e
           | Inr b \<Rightarrow>
               (case getProp v ''z'' of
                  Inl e \<Rightarrow> Inl e
                | Inr c \<Rightarrow> Inr (a, b, c))))"

definition asNumber :: "js_value \<Rightarrow> real option" where
  "asNumber v = (case v of JNum r \<Rightarrow> Some r | _ \<Rightarrow> None)"

subsection \<open>Setting the position\<close>

text \<open>
  How a call of \<open>setPosition\<close> ends: it returns with the player placed; or it returns with
  \<open>mesh.position\<close> holding three values that are not all numbers, where the numeric model of
  the player stops; or it throws.
\<close>

datatype placement =
    Placed player
  | PlacedRaw js_value js_value js_value
  | Failed js_error

text \<open>The mesh position set to a vector of numbers and the hitbox recomputed from the mesh.\<close>

definition moveTo :: "vec3 \<Rightarrow> player \<Rightarrow> player" where
  "moveTo position p =
     (let p1 = p\<lparr>mesh_position := position\<rparr>
      in p1\<lparr>hitbox := setFromObject p1\<rparr>)"

text \<open>
  The last two statements of \<open>setPosition\<close>: \<open>this.mesh.position.copy(position)\<close>, which
  reads \<open>position.x\<close>, \<open>position.y\<close>, \<open>position.z\<close> and stores them, and
  \<open>this.hitbox.setFromObject(this.mesh)\<close>.
\<close>

definition copyAndRefresh :: "js_value \<Rightarrow> player \<Rightarrow> placement" where
  "copyAndRefresh position p =
     (case readXYZ position of
        Inl e \<Rightarrow> Failed e
      | Inr (a, b, c) \<Rightarrow>
          (case (asNumber a, asNumber b, asNumber c) of
             (Some x, Some y, Some z) \<Rightarrow> Placed (moveTo (Vector3 x y z) p)
           | _ \<Rightarrow> PlacedRaw a b c))"

text \<open>\<open>Player.setPosition(position)\<close>.\<close>

definition setPosition :: "js_value \<Rightarrow> player \<Rightarrow> placement" where
  "setPosition position p =
     (if \<not> truthy position then
        copyAndRefresh (JVector3 (JNum 0) (JNum 2) (JNum 0)) p
      else if \<not> instanceofVector3 position then
        (case readXYZ position of
           Inl e \<Rightarrow> Failed e
         | Inr (a, b, c) \<Rightarrow>
             copyAndRefresh
               (JVector3 (jsOr a (JNum 0)) (jsOr b (JNum 2)) (jsOr c (JNum 0))) p)
      else copyAndRefresh position p)"

subsection \<open>Level objects\<close>

text \<open>
  An entry of \<open>groundObjects\<close> or \<open>collisionObjects\<close>: either an object that
  \<open>handleCollisions\<close> skips (null, or without \<open>geometry\<close> or \<open>matrixWorld\<close>), or a mesh,
  given by the box \<open>setFromObject\<close> computes for it.
\<close>

datatype scene_object = InvalidObject | SceneMesh box3

text \<open>A collectible of the level and whether it has been taken.\<close>

record collectible =
  col_id :: string
  col_collected :: bool

record levelManager =
  groundObjects :: "scene_object list option"
  collisionObjects :: "scene_object list option"
  collectibles :: "collectible list"

subsection \<open>Ground detection\<close>

text \<open>
  \<open>Raycaster.intersectObjects(objects, false)\<close> of the rendering library: the hits of the
  ray on each object whose distance lies between \<open>near\<close> and \<open>far\<close>, sorted by distance.
  \<open>rayHits origin obj\<close> gives the distances at which the downward ray from \<open>origin\<close>
  meets the surface of \<open>obj\<close>.
\<close>

definition intersectObjects ::
  "(vec3 \<Rightarrow> scene_object \<Rightarrow> real list) \<Rightarrow> vec3 \<Rightarrow> real \<Rightarrow> real \<Rightarrow> scene_object list \<Rightarrow> real list"
where
  "intersectObjects rayHits origin near far objects =
     sort (filter (\<lambda>d. near \<le> d \<and> d \<le> far) (concat (map (rayHits origin) objects)))"

text \<open>
  \<open>Player.checkGrounded(levelManager)\<close>, with the ground ray of the constructor:
  \<open>near = 0\<close>, \<open>far = 2\<close>.
\<close>

definition checkGrounded ::
  "(vec3 \<Rightarrow> scene_object \<Rightarrow> real list) \<Rightarrow> levelManager option \<Rightarrow> player \<Rightarrow> player"
where
  "checkGrounded rayHits lm p =
     (let origin = mesh_position p;
          groundObjs =
            (case lm of
               None \<Rightarrow> []
             | Some l \<Rightarrow> (case groundObjects l of None \<Rightarrow> [] | Some gs \<Rightarrow> gs));
          p1 = p\<lparr>isGrounded := False\<rparr>
      in if groundObjs = [] then p1
         else
           (case intersectObjects rayHits origin 0 2 groundObjs of
              [] \<Rightarrow> p1\<lparr>isGrounded := False\<rparr>
            | d # _ \<Rightarrow> (if d \<le> 2 then p1\<lparr>isGrounded := True\<rparr> else p1\<lparr>isGrounded := False\<rparr>)))"

subsection \<open>Collision resolution\<close>

datatype axis = AxisX | AxisY | AxisZ

text \<open>
  \<open>if (v < minOverlap) { minOverlap = v; pushAxis = a; }\<close>, where \<open>minOverlap\<close> starts
  as \<open>Infinity\<close> (\<open>None\<close>) and \<open>pushAxis\<close> as \<open>null\<close> (\<open>None\<close>).
\<close>

definition takeIfSmaller ::
  "real \<Rightarrow> axis \<Rightarrow> real option \<times> axis option \<Rightarrow> real option \<times> axis option"
where
  "takeIfSmaller v a cur =
     (case fst cur of
        None \<Rightarrow> (Some v, Some a)
      | Some m \<Rightarrow> (if v < m then (Some v, Some a) else cur))"

definition minimumOverlap :: "vec3 \<Rightarrow> real option \<times> axis option" where
  "minimumOverlap overlap =
     takeIfSmaller (vz overlap) AxisZ
       (takeIfSmaller (vy overlap) AxisY
         (takeIfSmaller (vx overlap) AxisX (None, None)))"

text \<open>
  The value of \<open>minOverlap\<close> after the three comparisons. It is never \<open>Infinity\<close> there,
  since the comparison with \<open>overlap.x\<close> always succeeds first.
\<close>

definition finiteOverlap :: "real option \<Rightarrow> real" where
  "finiteOverlap m = (case m of Some v \<Rightarrow> v | None \<Rightarrow> 0)"

text \<open>The three per-axis overlaps computed from the two boxes.\<close>

definition overlapOf :: "box3 \<Rightarrow> box3 \<Rightarrow> vec3" where
  "overlapOf playerBox objectHitbox =
     (let playerCenter = getCenter playerBox;
          playerSize = getSize playerBox;
          objectCenter = getCenter objectHitbox;
          objectSize = getSize objectHitbox
      in Vector3
           ((vx playerSize / 2 + vx objectSize / 2) - \<bar>vx playerCenter - vx objectCenter\<bar>)
           ((vy playerSize / 2 + vy objectSize / 2) - \<bar>vy playerCenter - vy objectCenter\<bar>)
           ((vz playerSize / 2 + vz objectSize / 2) - \<bar>vz playerCenter - vz objectCenter\<bar>))"

text \<open>The minimum translation vector: the sign of the centre difference on the push axis.\<close>

definition mtvOf :: "axis option \<Rightarrow> vec3 \<Rightarrow> vec3 \<Rightarrow> vec3" where
  "mtvOf pushAxis playerCenter objectCenter =
     (case pushAxis of
        Some AxisX \<Rightarrow> Vector3 (sgn (vx playerCenter - vx objectCenter)) 0 0
      | Some AxisY \<Rightarrow> Vector3 0 (sgn (vy playerCenter - vy objectCenter)) 0
      | Some AxisZ \<Rightarrow> Vector3 0 0 (sgn (vz playerCenter - vz objectCenter))
      | None \<Rightarrow> Vector3 0 0 0)"

text \<open>The body of the \<open>forEach\<close> callback in \<open>Player.handleCollisions\<close>.\<close>

definition resolveCollision :: "scene_object \<Rightarrow> player \<Rightarrow> player" where
  "resolveCollision object p =
     (case object of
        InvalidObject \<Rightarrow> p
      | SceneMesh objectHitbox \<Rightarrow>
          (let p1 = p\<lparr>hitbox := setFromObject p\<rparr>
           in if intersectsBox (hitbox p1) objectHitbox then
                (let playerCenter = getCenter (hitbox p1);
                     objectCenter = getCenter objectHitbox;
                     overlap = overlapOf (hitbox p1) objectHitbox
                 in if vx overlap \<le> 0 \<or> vy overlap \<le> 0 \<or> vz overlap \<le> 0 then p1
                    else
                      (let (minOverlap, pushAxis) = minimumOverlap overlap;
                           pushAmount = finiteOverlap minOverlap * 1.01;
                           mtv = mtvOf pushAxis playerCenter objectCenter;
                           p2 = p1\<lparr>mesh_position :=
                                     addScaledVector (mesh_position p1) mtv pushAmount\<rparr>;
                           velocityAlongNormal = dot (velocity p2) mtv;
                           p3 = (if velocityAlongNormal < 0
                                 then p2\<lparr>velocity :=
                                           vsub (velocity p2)
                                             (multiplyScalar mtv velocityAlongNormal)\<rparr>
                                 else p2)
                       in if pushAxis = Some AxisY \<and> vy mtv > 0 \<and> \<not> isJumping p3
                          then p3\<lparr>isGrounded := True, isFalling := False\<rparr>
                          else p3))
              else p1))"

text \<open>\<open>Player.handleCollisions(levelManager)\<close>.\<close>

definition handleCollisions :: "levelManager option \<Rightarrow> player \<Rightarrow> player" where
  "handleCollisions lm p =
     (let collisionObjs =
            (case lm of
               None \<Rightarrow> []
             | Some l \<Rightarrow> (case collisionObjects l of None \<Rightarrow> [] | Some cs \<Rightarrow> cs))
      in if collisionObjs = [] then p
         else (let p' = fold resolveCollision collisionObjs p
               in p'\<lparr>hitbox := setFromObject p'\<rparr>))"

section \<open>Game\<close>

record npc =
  npc_name :: string
  isWinConditionNPC :: bool

text \<open>A copy of \<open>InputManager.inputState\<close>, as \<open>getInputState\<close> returns it.\<close>

record inputState =
  inp_forward :: bool
  inp_backward :: bool
  inp_left :: bool
  inp_right :: bool
  inp_jump :: bool
  inp_down :: bool
  inp_action :: bool
  inp_interact :: bool
  inp_pause :: bool

text \<open>
  The fields of \<open>Game\<close>. \<open>level\<close> is \<open>this.levelManager\<close>, \<open>clockRunning\<close> is the state of
  \<open>this.clock\<close>, \<open>pauseScreenShown\<close> that of the pause overlay, and \<open>savedScores\<close> lists the
  calls of \<open>supabase.saveHighScore\<close> in order (score, game time, artifacts).
\<close>

record game =
  state :: game_state
  isRunning :: bool
  isPaused :: bool
  isUserPaused :: bool
  interactingNPC :: "npc option"
  initialPlayerPosition :: "vec3 option"
  player :: "player option"
  level :: "levelManager option"
  clockRunning :: bool
  pauseScreenShown :: bool
  savedScores :: "(int \<times> real \<times> int) list"

text \<open>\<open>Game.collectMemory(memoryData)\<close>.\<close>

definition collectMemory :: "memoryData \<Rightarrow> game \<Rightarrow> game" where
  "collectMemory md g =
     (let s1 = (state g)\<lparr>memories := memories (state g) + 1\<rparr>;
          s2 = (if \<not> list_ex (\<lambda>m. mem_id m = mem_id md) (collectedMemories s1)
                then s1\<lparr>collectedMemories := collectedMemories s1 @ [md]\<rparr>
                else s1)
      in g\<lparr>state := s2\<rparr>)"

text \<open>\<open>Game.gameOver(reason)\<close>.\<close>

definition gameOver :: "string \<Rightarrow> game \<Rightarrow> game" where
  "gameOver reason g =
     (if \<not> isRunning g then g
      else
        (let s1 = (state g)\<lparr>gameOverReason := Some reason\<rparr>;
             s2 = s1\<lparr>finalScore := gameOver_score s1\<rparr>
         in g\<lparr>isRunning := False,
               state := s2,
               savedScores := savedScores g @ [(finalScore s2, gameTimer s2, artifacts s2)]\<rparr>))"

text \<open>
  How a call into \<open>Game\<close> ends: it returns, or it throws; either way with the game as the
  call left it.
\<close>

datatype outcome = Returned game | Threw js_error game

text \<open>
  \<open>Game.respawnPlayer(reason, scoreToDisplay)\<close>. After the score has been stored and, for
  \<open>fall\<close> and \<open>health\<close>, saved, the function calls \<open>this.player.resetForRespawn()\<close>. The
  class \<open>Player\<close> has no method of that name (its methods are \<open>createPlayerMesh\<close>,
  \<open>setPosition\<close>, \<open>update\<close>, \<open>updateLandMovement\<close>, \<open>checkGrounded\<close>, \<open>handleCollisions\<close>,
  \<open>checkCollectibles\<close>, \<open>getCollectedItems\<close>, \<open>interact\<close>, \<open>getCurrentDialogue\<close>,
  \<open>useTelekinesis\<close>, \<open>enableTelekinesis\<close>, \<open>takeDamage\<close>, \<open>resetSessionStats\<close> and
  \<open>enableHighJump\<close>), so the call throws a \<open>TypeError\<close>, and the statements after it (the
  resets of the session state and of the collectibles, \<open>setPosition\<close>, the flags and the
  health) are not reached.
\<close>

definition respawnPlayer :: "string \<Rightarrow> int option \<Rightarrow> game \<Rightarrow> outcome" where
  "respawnPlayer reason scoreToDisplay g =
     (case (player g, initialPlayerPosition g) of
        (Some pl, Some spawn) \<Rightarrow>
          (let finalScoreForDisplay =
                 (case scoreToDisplay of
                    Some sc \<Rightarrow> sc
                  | None \<Rightarrow> respawn_inline_score (state g));
               s1 = (state g)\<lparr>scoreFromLastAttempt := Some finalScoreForDisplay\<rparr>;
               saved =
                 (if reason = ''fall'' \<or> reason = ''health''
                  then savedScores g @ [(finalScoreForDisplay, gameTimer s1, artifacts s1)]
                  else savedScores g)
           in Threw TypeError (g\<lparr>state := s1, savedScores := saved\<rparr>))
      | _ \<Rightarrow> Returned (gameOver ''respawn_error'' g))"

text \<open>\<open>Game.gameWon()\<close>.\<close>

definition gameWon :: "game \<Rightarrow> outcome" where
  "gameWon g =
     (if \<not> isRunning g then Returned g
      else
        (let s1 = (state g)\<lparr>gameWon := True\<rparr>;
             s2 = s1\<lparr>finalScore := calculateScore s1 True\<rparr>;
             s3 = s2\<lparr>scoreFromLastAttempt := None\<rparr>;
             g1 = g\<lparr>state := s3,
                    savedScores := savedScores g @ [(finalScore s3, gameTimer s3, artifacts s3)]\<rparr>
         in respawnPlayer ''win'' (Some (finalScore s3)) g1))"

text \<open>\<open>Game.togglePause()\<close>.\<close>

definition togglePause :: "game \<Rightarrow> game" where
  "togglePause g =
     (let g1 = g\<lparr>isUserPaused := \<not> isUserPaused g\<rparr>
      in if isUserPaused g1
         then g1\<lparr>clockRunning := False, pauseScreenShown := True\<rparr>
         else g1\<lparr>clockRunning := True, pauseScreenShown := False\<rparr>)"

text \<open>\<open>Game.unpauseAndEndDialogue()\<close>.\<close>

definition unpauseAndEndDialogue :: "game \<Rightarrow> game" where
  "unpauseAndEndDialogue g = g\<lparr>isPaused := False, interactingNPC := None\<rparr>"

text \<open>\<open>Game.checkWinCondition()\<close>; the failsafe branch only shows a dialogue.\<close>

definition checkWinCondition :: "game \<Rightarrow> outcome" where
  "checkWinCondition g =
     (case interactingNPC g of
        Some n \<Rightarrow> (if npc_name n = ''Guardian of the Depths'' then gameWon g else Returned g)
      | None \<Rightarrow> Returned g)"

text \<open>
  \<open>Game.update()\<close>, one frame. \<open>delta\<close> is what \<open>clock.getDelta()\<close> returns in this frame
  and \<open>inp\<close> what \<open>input.getInputState()\<close> returns. \<open>simulate\<close> is the rest of the frame
  once both pause gates are passed (player and level update, collected items,
  \<open>updateGameState\<close>, rendering, network and regeneration timers), which calls into the
  level manager and the renderer.
\<close>

definition update ::
  "(real \<Rightarrow> inputState \<Rightarrow> game \<Rightarrow> outcome) \<Rightarrow> real \<Rightarrow> inputState \<Rightarrow> game \<Rightarrow> outcome"
where
  "update simulate delta inp g =
     (if \<not> isRunning g then Returned g
      else
        (let deltaTime = (if isUserPaused g then 0 else delta);
             g1 = (if inp_pause inp then togglePause g else g)
         in if isPaused g1 \<and> interactingNPC g1 \<noteq> None then
              (if inp_interact inp then
                 (case interactingNPC g1 of
                    Some n \<Rightarrow>
                      (if isWinConditionNPC n then
                         (case checkWinCondition g1 of
                            Threw e g2 \<Rightarrow> Threw e g2
                          | Returned g2 \<Rightarrow>
                              (if isRunning g2 then Returned (unpauseAndEndDialogue g2)
                               else Returned g2))
                       else Returned (unpauseAndEndDialogue g1))
                  | None \<Rightarrow> Returned g1)
               else Returned g1)
            else if isUserPaused g1 then Returned g1
            else simulate deltaTime inp g1))"

text \<open>
  A run of frames: each frame's clock delta and input, in order. A frame that throws does
  not schedule the next one.
\<close>

fun frames ::
  "(real \<Rightarrow> inputState \<Rightarrow> game \<Rightarrow> outcome) \<Rightarrow> (real \<times> inputState) list \<Rightarrow> game \<Rightarrow> outcome"
where
  "frames sim [] g = Returned g"
| "frames sim ((delta, inp) # fs) g =
     (case update sim delta inp g of
        Returned g' \<Rightarrow> frames sim fs g'
      | Threw e g' \<Rightarrow> Threw e g')"

section \<open>Derived notions and example values\<close>

text \<open>A session state with the given timer and counts, everything else as at game start.\<close>

definition session :: "real \<Rightarrow> int \<Rightarrow> int \<Rightarrow> game_state" where
  "session t a m =
     \<lparr>artifacts = a, memories = m, collectedMemories = [], depth = 0, gameTimer = t,
      gameOverReason = None, gameWon = False, finalScore = 0, scoreFromLastAttempt = None\<rparr>"

text \<open>
  The extent of the unrotated mesh group that \<open>createPlayerMesh\<close> builds: a capsule of
  radius 0.5 and length 1.5 raised by 1, a head inside it, and a lamp of radius 0.1 at
  \<open>z = 0.8\<close>.
\<close>

definition playerMeshBounds :: box3 where
  "playerMeshBounds = Box3 (Vector3 (-0.5) (-0.25) (-0.5)) (Vector3 0.5 2.25 0.9)"

text \<open>A \<open>Vector3\<close> of numbers as a value.\<close>

definition ofVec3 :: "vec3 \<Rightarrow> js_value" where
  "ofVec3 v = JVector3 (JNum (vx v)) (JNum (vy v)) (JNum (vz v))"

text \<open>The fields of a \<open>Player\<close> as the constructor sets them before it calls \<open>setPosition\<close>.\<close>

definition initialFields :: player where
  "initialFields =
     \<lparr>mesh_position = Vector3 0 0 0, bounds = playerMeshBounds, hitbox = playerMeshBounds,
      velocity = Vector3 0 0 0, isGrounded = False, isJumping = False, isFalling = False\<rparr>"

text \<open>
  The \<open>Player\<close> constructor with a \<open>Vector3\<close> of numbers as start position: the initial
  fields, then \<open>setPosition(startPosition)\<close>, which places the player.
\<close>

definition newPlayer :: "vec3 \<Rightarrow> player" where
  "newPlayer startPosition =
     (case setPosition (ofVec3 startPosition) initialFields of
        Placed p \<Rightarrow> p
      | _ \<Rightarrow> initialFields)"

text \<open>The game once \<open>init\<close> and \<open>startGameLoop\<close> have run on a loaded level.\<close>

definition startGame :: "levelManager \<Rightarrow> vec3 \<Rightarrow> game" where
  "startGame lm startPosition =
     \<lparr>state = session 0 0 0, isRunning = True, isPaused = False, isUserPaused = False,
      interactingNPC = None, initialPlayerPosition = Some startPosition,
      player = Some (newPlayer startPosition), level = Some lm,
      clockRunning = True, pauseScreenShown = False, savedScores = []\<rparr>"

definition mem :: "string \<Rightarrow> memoryData" where
  "mem i = \<lparr>mem_id = i, mem_content = []\<rparr>"

definition platform :: box3 where
  "platform = Box3 (Vector3 (-5) (-1) (-5)) (Vector3 5 0 5)"

definition platformLevel :: levelManager where
  "platformLevel =
     \<lparr>groundObjects = Some [SceneMesh platform],
      collisionObjects = Some [SceneMesh platform],
      collectibles = [\<lparr>col_id = ''artifact_1'', col_collected = True\<rparr>,
                      \<lparr>col_id = ''surface_memory_1'', col_collected = True\<rparr>,
                      \<lparr>col_id = ''health_1'', col_collected = False\<rparr>]\<rparr>"

text \<open>
  A game in progress: 73.5 seconds played, two artifacts and one memory collected, the
  player fallen below the world floor.
\<close>

definition midGame :: game where
  "midGame =
     (startGame platformLevel (Vector3 0 150 0))
       \<lparr>state := (session 73.5 2 1)\<lparr>collectedMemories := [mem ''surface_memory_1'']\<rparr>,
        player := Some (moveTo (Vector3 3 (-25) 4) (newPlayer (Vector3 0 150 0)))\<rparr>"

text \<open>The condition of the dialogue gate in \<open>update\<close>: \<open>isPaused && interactingNPC\<close>.\<close>

definition inDialogue :: "game \<Rightarrow> bool" where
  "inDialogue g \<longleftrightarrow> isPaused g \<and> interactingNPC g \<noteq> None"

definition noInput :: inputState where
  "noInput =
     \<lparr>inp_forward = False, inp_backward = False, inp_left = False, inp_right = False,
      inp_jump = False, inp_down = False, inp_action = False, inp_interact = False,
      inp_pause = False\<rparr>"

definition pauseInput :: inputState where
  "pauseInput = noInput\<lparr>inp_pause := True\<rparr>"

text \<open>A frame body that only advances the timer, as \<open>updateGameState\<close> does first.\<close>

definition tickTimer :: "real \<Rightarrow> inputState \<Rightarrow> game \<Rightarrow> outcome" where
  "tickTimer deltaTime inp g =
     Returned (g\<lparr>state := (state g)\<lparr>gameTimer := gameTimer (state g) + deltaTime\<rparr>\<rparr>)"

text \<open>All distances at which the ground ray from the player's position meets ground objects.\<close>

definition groundHits ::
  "(vec3 \<Rightarrow> scene_object \<Rightarrow> real list) \<Rightarrow> player \<Rightarrow> scene_object list \<Rightarrow> real list"
where
  "groundHits rayHits p gs = concat (map (rayHits (mesh_position p)) gs)"

text \<open>
  A ray-hit function for flat-topped boxes: the downward ray from \<open>origin\<close> meets the top
  face of a box below it at the height difference.
\<close>

definition topFaceHits :: "vec3 \<Rightarrow> scene_object \<Rightarrow> real list" where
  "topFaceHits origin obj =
     (case obj of
        InvalidObject \<Rightarrow> []
      | SceneMesh b \<Rightarrow>
          (if vx (bmin b) \<le> vx origin \<and> vx origin \<le> vx (bmax b) \<and>
              vz (bmin b) \<le> vz origin \<and> vz origin \<le> vz (bmax b) \<and>
              vy (bmax b) \<le> vy origin
           then [vy origin - vy (bmax b)] else []))"

text \<open>
  Two boxes overlap when the penetration that \<open>handleCollisions\<close> computes is positive on
  all three axes; boxes that merely touch do not.
\<close>

definition overlaps :: "box3 \<Rightarrow> box3 \<Rightarrow> bool" where
  "overlaps playerBox objectHitbox \<longleftrightarrow>
     0 < vx (overlapOf playerBox objectHitbox) \<and>
     0 < vy (overlapOf playerBox objectHitbox) \<and>
     0 < vz (overlapOf playerBox objectHitbox)"

text \<open>
  The same with a tolerance: the penetration exceeds \<open>tol\<close> on all three axes.
\<close>

definition overlapsBeyond :: "real \<Rightarrow> box3 \<Rightarrow> box3 \<Rightarrow> bool" where
  "overlapsBeyond tol playerBox objectHitbox \<longleftrightarrow>
     tol < vx (overlapOf playerBox objectHitbox) \<and>
     tol < vy (overlapOf playerBox objectHitbox) \<and>
     tol < vz (overlapOf playerBox objectHitbox)"

text \<open>The vector \<open>mtv\<close> that \<open>handleCollisions\<close> computes for a pair of boxes.\<close>

definition pushNormal :: "box3 \<Rightarrow> box3 \<Rightarrow> vec3" where
  "pushNormal playerBox objectHitbox =
     mtvOf (snd (minimumOverlap (overlapOf playerBox objectHitbox)))
       (getCenter playerBox) (getCenter objectHitbox)"

text \<open>The first axis, in the order x, y, z, whose overlap is the smallest.\<close>

definition firstMinAxis :: "vec3 \<Rightarrow> axis" where
  "firstMinAxis ov =
     (if vx ov \<le> vy ov \<and> vx ov \<le> vz ov then AxisX
      else if vy ov \<le> vz ov then AxisY else AxisZ)"

text \<open>The component of a vector on an axis.\<close>

definition coord :: "axis \<Rightarrow> vec3 \<Rightarrow> real" where
  "coord a v = (case a of AxisX \<Rightarrow> vx v | AxisY \<Rightarrow> vy v | AxisZ \<Rightarrow> vz v)"

text \<open>On one axis: the penetration of two boxes, and the signed distance of their centres.\<close>

definition axisOverlap :: "axis \<Rightarrow> box3 \<Rightarrow> box3 \<Rightarrow> real" where
  "axisOverlap a playerBox objectHitbox = coord a (overlapOf playerBox objectHitbox)"

definition centreGap :: "axis \<Rightarrow> box3 \<Rightarrow> box3 \<Rightarrow> real" where
  "centreGap a playerBox objectHitbox =
     coord a (getCenter playerBox) - coord a (getCenter objectHitbox)"

text \<open>
  Resolving the object \<open>c\<close> for the player \<open>q\<close> moves the player along axis \<open>a\<close> against the
  direction \<open>s\<close> (1 or -1).
\<close>

definition pushesBack :: "axis \<Rightarrow> real \<Rightarrow> scene_object \<Rightarrow> player \<Rightarrow> bool" where
  "pushesBack a s c q \<longleftrightarrow>
     s * (coord a (mesh_position (resolveCollision c q)) - coord a (mesh_position q)) < 0"

text \<open>Some object of the list, resolved in its turn starting from \<open>q\<close>, does so.\<close>

fun laterPushBack :: "axis \<Rightarrow> real \<Rightarrow> scene_object list \<Rightarrow> player \<Rightarrow> bool" where
  "laterPushBack a s [] q = False"
| "laterPushBack a s (c # cs) q =
     (pushesBack a s c q \<or> laterPushBack a s cs (resolveCollision c q))"



text \<open>Two walls 0.7 apart, with the player (1 wide) standing between them.\<close>

definition wallLeft :: box3 where
  "wallLeft = Box3 (Vector3 (-2) (-10) (-10)) (Vector3 (-0.3) 10 10)"

definition wallRight :: box3 where
  "wallRight = Box3 (Vector3 0.4 (-10) (-10)) (Vector3 2 10 10)"

definition corridorLevel :: levelManager where
  "corridorLevel =
     \<lparr>groundObjects = Some [],
      collisionObjects = Some [SceneMesh wallLeft, SceneMesh wallRight],
      collectibles = []\<rparr>"

text \<open>A floor listed first and a wall listed after it, for a player sunk 0.1 into the floor.\<close>

definition wallEast :: box3 where
  "wallEast = Box3 (Vector3 0.3 (-10) (-10)) (Vector3 2 10 10)"

definition floorAndWallLevel :: levelManager where
  "floorAndWallLevel =
     \<lparr>groundObjects = Some [SceneMesh platform],
      collisionObjects = Some [SceneMesh platform, SceneMesh wallEast],
      collectibles = []\<rparr>"

text \<open>A thin slab whose centre has the same x as the player standing at the origin.\<close>

definition pillar :: box3 where
  "pillar = Box3 (Vector3 (-0.1) (-5) (-5)) (Vector3 0.1 5 5)"

section \<open>Properties of the score\<close>

text \<open>
  Claim C1, as the code has it: after 50 seconds with one artifact and one memory, a win
  scores \<open>(10000 - 500) + (1000 + 750) + 1000 = 12250\<close>.
\<close>

theorem calculateScore_win_example:
  "calculateScore (session 50 1 1) True = 12250"
  by (simp add: calculateScore_def session_def)

text \<open>Claim C1 as stated gives 11250 for the same input, which the code does not return.\<close>

theorem calculateScore_win_example_not_11250:
  "calculateScore (session 50 1 1) True \<noteq> 11250"
  by (simp add: calculateScore_def session_def)

text \<open>
  Claim C2: for every session state, the score block inside \<open>respawnPlayer\<close> and the one
  inside \<open>gameOver\<close> both return the integer that \<open>calculateScore\<close> returns without the
  win bonus.
\<close>

theorem inline_scores_agree:
  "respawn_inline_score s = calculateScore s False \<and>
   gameOver_score s = calculateScore s False"
  by (simp add: respawn_inline_score_def gameOver_score_def calculateScore_def)

text \<open>The two functions do use these blocks for the score they store.\<close>

lemma respawnPlayer_score:
  assumes "player g = Some pl" and "initialPlayerPosition g = Some spawn"
  shows "\<exists>g'. respawnPlayer reason None g = Threw TypeError g' \<and>
           scoreFromLastAttempt (state g') = Some (respawn_inline_score (state g))"
  using assms by (simp add: respawnPlayer_def Let_def)

lemma gameOver_finalScore:
  assumes "isRunning g"
  shows "finalScore (state (gameOver reason g)) = gameOver_score (state g)"
  using assms by (simp add: gameOver_def Let_def gameOver_score_def)

text \<open>
  Claim C5: with a non-negative timer and non-negative counts the score is a non-negative
  integer, with or without the win bonus; after 2000 seconds with nothing collected and no
  win it is 0.
\<close>

theorem calculateScore_nonneg:
  "(0 \<le> gameTimer s \<and> 0 \<le> artifacts s \<and> 0 \<le> memories s \<longrightarrow> 0 \<le> calculateScore s isWin) \<and>
   calculateScore (session 2000 0 0) False = 0"
  by (simp add: calculateScore_def session_def Let_def)

theorem calculateScore_nonneg_witness:
  "0 \<le> gameTimer (session 1200 2 1) \<and> 0 \<le> artifacts (session 1200 2 1) \<and>
   0 \<le> memories (session 1200 2 1) \<and> 0 \<le> calculateScore (session 1200 2 1) True"
  using calculateScore_nonneg [of "session 1200 2 1" True]
  by (simp add: session_def)

section \<open>Collected memories\<close>

lemma collectMemory_memories:
  "memories (state (collectMemory md g)) = memories (state g) + 1"
  by (simp add: collectMemory_def Let_def)

lemma collectMemory_distinct:
  "distinct (map mem_id (collectedMemories (state g))) \<Longrightarrow>
   distinct (map mem_id (collectedMemories (state (collectMemory md g))))"
  by (auto simp: collectMemory_def Let_def list_ex_iff)

lemma collectMemory_repeat:
  "mem_id md \<in> set (map mem_id (collectedMemories (state g))) \<Longrightarrow>
   collectedMemories (state (collectMemory md g)) = collectedMemories (state g)"
  by (auto simp: collectMemory_def Let_def list_ex_iff)

lemma fold_collectMemory_memories:
  "memories (state (fold collectMemory mds g)) = memories (state g) + int (length mds)"
  by (induction mds arbitrary: g) (simp_all add: collectMemory_memories)

lemma fold_collectMemory_distinct:
  "distinct (map mem_id (collectedMemories (state g))) \<Longrightarrow>
   distinct (map mem_id (collectedMemories (state (fold collectMemory mds g))))"
proof (induction mds arbitrary: g)
  case Nil
  then show ?case by simp
next
  case (Cons md mds)
  from Cons.prems
  have "distinct (map mem_id (collectedMemories (state (collectMemory md g))))"
    by (rule collectMemory_distinct)
  then show ?case using Cons.IH by simp
qed

text \<open>
  Claim C10: whatever memories are collected in whatever order, if the ids in
  \<open>collectedMemories\<close> were pairwise distinct before (as they are in the empty list a life
  starts with) they are pairwise distinct afterwards; every call adds one to the
  \<open>memories\<close> counter; and a call with an id already in the list leaves the list as it is.
\<close>

theorem collectedMemories_distinct_ids:
  "(distinct (map mem_id (collectedMemories (state g))) \<longrightarrow>
      distinct (map mem_id (collectedMemories (state (fold collectMemory mds g))))) \<and>
   memories (state (fold collectMemory mds g)) = memories (state g) + int (length mds) \<and>
   (mem_id md \<in> set (map mem_id (collectedMemories (state g))) \<longrightarrow>
      collectedMemories (state (collectMemory md g)) = collectedMemories (state g) \<and>
      memories (state (collectMemory md g)) = memories (state g) + 1)"
  using fold_collectMemory_distinct [of g mds] fold_collectMemory_memories [of mds g]
    collectMemory_repeat [of md g] collectMemory_memories [of md g]
  by blast

theorem collectedMemories_distinct_ids_witness:
  "distinct (map mem_id (collectedMemories (state midGame))) \<and>
   mem_id (mem ''surface_memory_1'') \<in> set (map mem_id (collectedMemories (state midGame))) \<and>
   collectedMemories (state (fold collectMemory
       [mem ''surface_memory_2'', mem ''surface_memory_1'', mem ''surface_memory_2''] midGame))
     = [mem ''surface_memory_1'', mem ''surface_memory_2''] \<and>
   memories (state (fold collectMemory
       [mem ''surface_memory_2'', mem ''surface_memory_1'', mem ''surface_memory_2''] midGame)) = 4 \<and>
   collectedMemories (state (collectMemory (mem ''surface_memory_1'') midGame))
     = [mem ''surface_memory_1'']"
  using collectedMemories_distinct_ids
    [of midGame "[mem ''surface_memory_2'', mem ''surface_memory_1'', mem ''surface_memory_2'']"
        "mem ''surface_memory_1''"]
  by (simp add: midGame_def startGame_def session_def collectMemory_def mem_def Let_def)

section \<open>Setting the player's position\<close>




lemma readXYZ_Vector3: "readXYZ (JVector3 a b c) = Inr (a, b, c)"
  by (simp add: readXYZ_def)


lemma copyAndRefresh_numbers:
  "copyAndRefresh (JVector3 (JNum x) (JNum y) (JNum z)) p = Placed (moveTo (Vector3 x y z) p)"
  by (simp add: copyAndRefresh_def readXYZ_Vector3 asNumber_def)



lemma setPosition_Vector3:
  "setPosition (JVector3 (JNum x) (JNum y) (JNum z)) p = Placed (moveTo (Vector3 x y z) p)"
  by (simp add: setPosition_def copyAndRefresh_numbers)




lemma setPosition_primitive:
  "truthy position \<Longrightarrow> (\<exists>b. position = JBool b) \<or> (\<exists>r. position = JNum r) \<or> (\<exists>s. position = JStr s) \<Longrightarrow>
   setPosition position p = Placed (moveTo (Vector3 0 2 0) p)"
  by (auto simp: setPosition_def readXYZ_def jsOr_def copyAndRefresh_numbers)



lemma moveTo_hitbox:
  "hitbox (moveTo w p) = setFromObject (moveTo w p)"
  "mesh_position (moveTo w p) = w"
  "moveTo w p = p\<lparr>mesh_position := w, hitbox := Box3 (vadd w (bmin (bounds p))) (vadd w (bmax (bounds p)))\<rparr>"
  by (simp_all add: moveTo_def Let_def setFromObject_def)


text \<open>The constructor places the player at its start position.\<close>

lemma newPlayer_moveTo: "newPlayer v = moveTo v initialFields"
  by (simp add: newPlayer_def ofVec3_def setPosition_Vector3)


section \<open>Respawn\<close>

text \<open>Without a player or a recorded spawn position the game ends.\<close>

lemma respawnPlayer_without_spawn:
  "player g = None \<or> initialPlayerPosition g = None \<Longrightarrow>
   respawnPlayer reason sc g = Returned (gameOver ''respawn_error'' g)"
  by (auto simp: respawnPlayer_def split: option.splits)

text \<open>
  With both, every respawn throws at the call of \<open>resetForRespawn\<close>, and the counters, the
  timer, the list of memories, the level and the player are as they were.
\<close>

lemma respawnPlayer_throws:
  assumes "player g = Some pl" and "initialPlayerPosition g = Some spawn"
  shows "\<exists>g'. respawnPlayer reason sc g = Threw TypeError g' \<and>
           artifacts (state g') = artifacts (state g) \<and>
           memories (state g') = memories (state g) \<and>
           collectedMemories (state g') = collectedMemories (state g) \<and>
           gameTimer (state g') = gameTimer (state g) \<and>
           level g' = level g \<and> player g' = player g"
  using assms by (simp add: respawnPlayer_def Let_def)

text \<open>
  Claim C7 at a game in progress (73.5 seconds, two artifacts, one memory, two collectibles
  taken, the player at \<open>(3, -25, 4)\<close>, spawn recorded at \<open>(0, 150, 0)\<close>): for \<open>fall\<close>,
  \<open>health\<close> and \<open>win\<close> alike \<open>respawnPlayer\<close> throws a \<open>TypeError\<close>, having stored the score
  (and saved it for \<open>fall\<close> and \<open>health\<close>) and changed nothing else: no counter, timer or list
  is reset, no collectible is made available, the player is not moved.
\<close>

theorem respawnPlayer_throws_before_reset:
  "respawnPlayer ''fall'' None midGame =
     Threw TypeError
       (midGame\<lparr>state := (state midGame)\<lparr>scoreFromLastAttempt := Some 12015\<rparr>,
                savedScores := [(12015, 73.5, 2)]\<rparr>) \<and>
   respawnPlayer ''health'' None midGame =
     Threw TypeError
       (midGame\<lparr>state := (state midGame)\<lparr>scoreFromLastAttempt := Some 12015\<rparr>,
                savedScores := [(12015, 73.5, 2)]\<rparr>) \<and>
   respawnPlayer ''win'' (Some 13015) midGame =
     Threw TypeError (midGame\<lparr>state := (state midGame)\<lparr>scoreFromLastAttempt := Some 13015\<rparr>\<rparr>) \<and>
   artifacts (state midGame) = 2 \<and> memories (state midGame) = 1 \<and>
   collectedMemories (state midGame) = [mem ''surface_memory_1''] \<and>
   gameTimer (state midGame) = 73.5 \<and>
   map_option (\<lambda>l. map col_collected (collectibles l)) (level midGame) = Some [True, True, False] \<and>
   map_option mesh_position (player midGame) = Some (Vector3 3 (-25) 4) \<and>
   initialPlayerPosition midGame = Some (Vector3 0 150 0)"
  by (simp add: respawnPlayer_def midGame_def startGame_def session_def platformLevel_def
      respawn_inline_score_def moveTo_def Let_def)

section \<open>Pausing\<close>

lemma togglePause_twice:
  "togglePause (togglePause g) =
     g\<lparr>clockRunning := \<not> isUserPaused g, pauseScreenShown := isUserPaused g\<rparr>"
  by (cases "isUserPaused g") (simp_all add: togglePause_def Let_def)

lemma togglePause_fields:
  "isUserPaused (togglePause g) = (\<not> isUserPaused g)"
  "isRunning (togglePause g) = isRunning g"
  "isPaused (togglePause g) = isPaused g"
  "interactingNPC (togglePause g) = interactingNPC g"
  "state (togglePause g) = state g"
  "player (togglePause g) = player g"
  "level (togglePause g) = level g"
  by (simp_all add: togglePause_def Let_def)

text \<open>The frame in which the pause key is seen while running: the pause gate returns.\<close>

lemma update_pausing_frame:
  assumes "isRunning g" "\<not> inDialogue g" "\<not> isUserPaused g" "inp_pause i"
  shows "update sim d i g = Returned (togglePause g)"
  using assms by (simp add: update_def Let_def togglePause_fields inDialogue_def)

text \<open>A frame while paused, without the pause key: nothing changes.\<close>

lemma update_paused_frame:
  assumes "isRunning g" "\<not> inDialogue g" "isUserPaused g" "\<not> inp_pause i"
  shows "update sim d i g = Returned g"
  using assms by (simp add: update_def Let_def inDialogue_def)

text \<open>The frame in which the pause key is seen while paused: it runs with \<open>deltaTime = 0\<close>.\<close>

lemma update_resuming_frame:
  assumes "isRunning g" "\<not> inDialogue g" "isUserPaused g" "inp_pause i"
  shows "update sim d i g = sim 0 i (togglePause g)"
  using assms by (auto simp: update_def Let_def togglePause_fields inDialogue_def)

lemma frames_paused:
  assumes "isRunning g" "\<not> inDialogue g" "isUserPaused g"
    and "\<forall>f \<in> set fs. \<not> inp_pause (snd f)"
  shows "frames sim fs g = Returned g"
  using assms
proof (induction fs)
  case Nil
  then show ?case by simp
next
  case (Cons f fs)
  obtain d i where f: "f = (d, i)" by (cases f)
  with Cons.prems have "update sim d i g = Returned g"
    by (simp add: update_paused_frame)
  with Cons f show ?case by simp
qed

text \<open>
  Claim C8: toggling the pause twice gives back the game as it was, with \<open>isUserPaused\<close> at
  its original value (only the clock and the pause overlay are set again, to the values that
  go with that state). And for a running game outside a dialogue: the frame that sees the
  pause key and any number of frames without it, whatever the clock deltas, all return and
  leave the game user-paused with its session state (so \<open>gameTimer\<close>), player and level
  those from before the pause; the frame that then sees the pause key again runs the frame
  body with \<open>deltaTime = 0\<close> on exactly that game.
\<close>

theorem pause_toggle_involution:
  "togglePause (togglePause g) =
     g\<lparr>clockRunning := \<not> isUserPaused g, pauseScreenShown := isUserPaused g\<rparr> \<and>
   isUserPaused (togglePause (togglePause g)) = isUserPaused g \<and>
   (isRunning g \<and> \<not> inDialogue g \<and> \<not> isUserPaused g \<and>
    inp_pause i0 \<and> (\<forall>f \<in> set fs. \<not> inp_pause (snd f)) \<and> inp_pause i1 \<longrightarrow>
      (\<exists>gp. frames sim ((d0, i0) # fs) g = Returned gp \<and>
         isUserPaused gp \<and>
         state gp = state g \<and>
         player gp = player g \<and>
         level gp = level g \<and>
         update sim d1 i1 gp = sim 0 i1 (togglePause (togglePause g))))"
proof (intro conjI impI)
  show "togglePause (togglePause g) =
     g\<lparr>clockRunning := \<not> isUserPaused g, pauseScreenShown := isUserPaused g\<rparr>"
    by (rule togglePause_twice)
  show "isUserPaused (togglePause (togglePause g)) = isUserPaused g"
    by (simp add: togglePause_fields)
next
  assume a: "isRunning g \<and> \<not> inDialogue g \<and> \<not> isUserPaused g \<and>
    inp_pause i0 \<and> (\<forall>f \<in> set fs. \<not> inp_pause (snd f)) \<and> inp_pause i1"
  let ?gp = "togglePause g"
  have first: "update sim d0 i0 g = Returned ?gp"
    using a by (simp add: update_pausing_frame)
  have paused: "isRunning ?gp" "\<not> inDialogue ?gp" "isUserPaused ?gp"
    using a by (simp_all add: togglePause_fields inDialogue_def)
  have rest: "frames sim fs ?gp = Returned ?gp"
    using paused a by (simp add: frames_paused)
  have run: "frames sim ((d0, i0) # fs) g = Returned ?gp"
    using first rest by simp
  have resume: "update sim d1 i1 ?gp = sim 0 i1 (togglePause ?gp)"
    using paused a by (simp add: update_resuming_frame)
  show "\<exists>gp. frames sim ((d0, i0) # fs) g = Returned gp \<and>
         isUserPaused gp \<and> state gp = state g \<and> player gp = player g \<and> level gp = level g \<and>
         update sim d1 i1 gp = sim 0 i1 (togglePause (togglePause g))"
    using run paused resume by (simp add: togglePause_fields)
qed

theorem pause_toggle_involution_witness:
  "isRunning midGame \<and> \<not> inDialogue midGame \<and> \<not> isUserPaused midGame \<and>
   inp_pause pauseInput \<and> \<not> inp_pause noInput \<and>
   togglePause (togglePause midGame) = midGame \<and>
   frames tickTimer [(0.016, pauseInput), (0.016, noInput), (0.02, noInput)] midGame
     = Returned (togglePause midGame) \<and>
   gameTimer (state (togglePause midGame)) = 73.5 \<and>
   update tickTimer 5 pauseInput (togglePause midGame) = Returned midGame"
  using pause_toggle_involution
    [where g = midGame and ?i0.0 = pauseInput and ?i1.0 = pauseInput
       and fs = "[(0.016, noInput), (0.02, noInput)]" and sim = tickTimer
       and ?d0.0 = "0.016" and ?d1.0 = 5]
  by (simp add: midGame_def startGame_def inDialogue_def pauseInput_def noInput_def
      tickTimer_def togglePause_def update_def session_def Let_def)

section \<open>Ground detection\<close>

lemma intersectObjects_set:
  "set (intersectObjects rayHits origin near far objs) =
     {d \<in> set (concat (map (rayHits origin) objs)). near \<le> d \<and> d \<le> far}"
  by (simp add: intersectObjects_def)

lemma checkGrounded_no_ground:
  "lm = None \<or> (\<exists>l. lm = Some l \<and> (groundObjects l = None \<or> groundObjects l = Some [])) \<Longrightarrow>
   \<not> isGrounded (checkGrounded rayHits lm p)"
  by (auto simp: checkGrounded_def Let_def)

text \<open>Grounded means: some hit of the ground ray lies within the probe distance.\<close>

lemma checkGrounded_iff:
  assumes "groundObjects l = Some gs"
  shows "isGrounded (checkGrounded rayHits (Some l) p) \<longleftrightarrow>
         (\<exists>d \<in> set (groundHits rayHits p gs). 0 \<le> d \<and> d \<le> 2)"
proof (cases "gs = []")
  case True
  with assms show ?thesis by (simp add: checkGrounded_def Let_def groundHits_def)
next
  case False
  let ?is = "intersectObjects rayHits (mesh_position p) 0 2 gs"
  have s: "set ?is = {d \<in> set (groundHits rayHits p gs). 0 \<le> d \<and> d \<le> 2}"
    by (simp add: intersectObjects_set groundHits_def)
  show ?thesis
  proof (cases ?is)
    case Nil
    then have "{d \<in> set (groundHits rayHits p gs). 0 \<le> d \<and> d \<le> 2} = {}"
      using s by simp
    moreover have "\<not> isGrounded (checkGrounded rayHits (Some l) p)"
      using assms False Nil by (simp add: checkGrounded_def Let_def)
    ultimately show ?thesis by blast
  next
    case (Cons d ds)
    then have "d \<in> set ?is" by simp
    then have d: "d \<in> set (groundHits rayHits p gs)" "0 \<le> d" "d \<le> 2"
      using s by auto
    have "isGrounded (checkGrounded rayHits (Some l) p)"
      using assms False Cons d by (simp add: checkGrounded_def Let_def)
    with d show ?thesis by blast
  qed
qed

text \<open>
  Claim C6: if the ground ray meets a ground object at distance exactly 2, the player is
  grounded; if every hit is farther than 2, the player is not grounded; and without a level
  manager, without a ground list or with an empty one, the player is not grounded, whatever
  the player's state.
\<close>

theorem checkGrounded_probe_boundary:
  "(groundObjects l = Some gs \<and> 2 \<in> set (groundHits rayHits p gs) \<longrightarrow>
      isGrounded (checkGrounded rayHits (Some l) p)) \<and>
   (groundObjects l = Some gs \<and> (\<forall>d \<in> set (groundHits rayHits p gs). 2 < d) \<longrightarrow>
      \<not> isGrounded (checkGrounded rayHits (Some l) p)) \<and>
   (lm = None \<or> (\<exists>l'. lm = Some l' \<and> (groundObjects l' = None \<or> groundObjects l' = Some [])) \<longrightarrow>
      \<not> isGrounded (checkGrounded rayHits lm p))"
proof (intro conjI impI)
  assume "groundObjects l = Some gs \<and> 2 \<in> set (groundHits rayHits p gs)"
  then show "isGrounded (checkGrounded rayHits (Some l) p)"
    using checkGrounded_iff [of l gs rayHits p] by force
next
  assume "groundObjects l = Some gs \<and> (\<forall>d \<in> set (groundHits rayHits p gs). 2 < d)"
  then show "\<not> isGrounded (checkGrounded rayHits (Some l) p)"
    using checkGrounded_iff [of l gs rayHits p] by force
next
  assume "lm = None \<or>
    (\<exists>l'. lm = Some l' \<and> (groundObjects l' = None \<or> groundObjects l' = Some []))"
  then show "\<not> isGrounded (checkGrounded rayHits lm p)"
    by (rule checkGrounded_no_ground)
qed

theorem checkGrounded_probe_boundary_witness:
  "groundObjects platformLevel = Some [SceneMesh platform] \<and>
   groundHits topFaceHits (newPlayer (Vector3 0 2 0)) [SceneMesh platform] = [2] \<and>
   isGrounded (checkGrounded topFaceHits (Some platformLevel) (newPlayer (Vector3 0 2 0))) \<and>
   groundHits topFaceHits (newPlayer (Vector3 0 2.5 0)) [SceneMesh platform] = [2.5] \<and>
   \<not> isGrounded (checkGrounded topFaceHits (Some platformLevel) (newPlayer (Vector3 0 2.5 0))) \<and>
   groundObjects corridorLevel = Some [] \<and>
   \<not> isGrounded (checkGrounded topFaceHits (Some corridorLevel)
        ((newPlayer (Vector3 0 2 0))\<lparr>isGrounded := True\<rparr>))"
  using checkGrounded_probe_boundary
    [of platformLevel "[SceneMesh platform]" topFaceHits "newPlayer (Vector3 0 2 0)" None]
    checkGrounded_probe_boundary
    [of platformLevel "[SceneMesh platform]" topFaceHits "newPlayer (Vector3 0 2.5 0)" None]
    checkGrounded_probe_boundary
    [of platformLevel "[SceneMesh platform]" topFaceHits
        "(newPlayer (Vector3 0 2 0))\<lparr>isGrounded := True\<rparr>" "Some corridorLevel"]
  by (simp add: platformLevel_def corridorLevel_def groundHits_def topFaceHits_def platform_def
      newPlayer_moveTo moveTo_def Let_def)

section \<open>Collision resolution\<close>

subsection \<open>What one collision step does\<close>

lemma minimumOverlap_eq:
  "minimumOverlap ov = (Some (min (vx ov) (min (vy ov) (vz ov))), Some (firstMinAxis ov))"
  by (auto simp: minimumOverlap_def takeIfSmaller_def firstMinAxis_def min_def)

lemma pushNormal_axis:
  "pushNormal a b =
     (case firstMinAxis (overlapOf a b) of
        AxisX \<Rightarrow> Vector3 (sgn (vx (getCenter a) - vx (getCenter b))) 0 0
      | AxisY \<Rightarrow> Vector3 0 (sgn (vy (getCenter a) - vy (getCenter b))) 0
      | AxisZ \<Rightarrow> Vector3 0 0 (sgn (vz (getCenter a) - vz (getCenter b))))"
  by (simp add: pushNormal_def minimumOverlap_eq mtvOf_def split: axis.splits)

lemma firstMinAxis_min:
  "firstMinAxis ov = AxisX \<Longrightarrow> min (vx ov) (min (vy ov) (vz ov)) = vx ov"
  "firstMinAxis ov = AxisY \<Longrightarrow> min (vx ov) (min (vy ov) (vz ov)) = vy ov"
  "firstMinAxis ov = AxisZ \<Longrightarrow> min (vx ov) (min (vy ov) (vz ov)) = vz ov"
  by (auto simp: firstMinAxis_def min_def split: if_splits)

lemma resolveCollision_bounds [simp]: "bounds (resolveCollision obj p) = bounds p"
  by (cases obj) (simp_all add: resolveCollision_def Let_def split: prod.splits)

text \<open>
  The push: along the first axis of least overlap, by the sign of the centre difference
  times 1.01 times that overlap.
\<close>

lemma resolveCollision_position:
  "mesh_position (resolveCollision (SceneMesh b) p) =
     (if intersectsBox (setFromObject p) b \<and> overlaps (setFromObject p) b
      then addScaledVector (mesh_position p) (pushNormal (setFromObject p) b)
             (min (vx (overlapOf (setFromObject p) b))
                (min (vy (overlapOf (setFromObject p) b)) (vz (overlapOf (setFromObject p) b)))
              * 1.01)
      else mesh_position p)"
  by (auto simp: resolveCollision_def Let_def overlaps_def pushNormal_def minimumOverlap_eq
      finiteOverlap_def not_less)

text \<open>The velocity loses its part along the push normal only when that part is negative.\<close>

lemma resolveCollision_velocity:
  "velocity (resolveCollision (SceneMesh b) p) =
     (if intersectsBox (setFromObject p) b \<and> overlaps (setFromObject p) b \<and>
         dot (velocity p) (pushNormal (setFromObject p) b) < 0
      then vsub (velocity p)
             (multiplyScalar (pushNormal (setFromObject p) b)
                (dot (velocity p) (pushNormal (setFromObject p) b)))
      else velocity p)"
  by (auto simp: resolveCollision_def Let_def overlaps_def pushNormal_def minimumOverlap_eq
      finiteOverlap_def not_less)

text \<open>An object is skipped when some axis overlap is not positive, or when it is invalid.\<close>

lemma resolveCollision_skip:
  "\<not> overlaps (setFromObject p) b \<Longrightarrow>
   resolveCollision (SceneMesh b) p = p\<lparr>hitbox := setFromObject p\<rparr>"
  by (auto simp: resolveCollision_def Let_def overlaps_def not_less)

lemma resolveCollision_invalid: "resolveCollision InvalidObject p = p"
  by (simp add: resolveCollision_def)

subsection \<open>Separation after one step\<close>

lemma axis_separated:
  fixes c oc h m :: real
  assumes "0 < m" "c \<noteq> oc" "h - \<bar>c - oc\<bar> = m"
  shows "h - \<bar>(c + sgn (c - oc) * (m * 1.01)) - oc\<bar> < 0"
proof (cases "c < oc")
  case True
  then have "sgn (c - oc) = -1" by simp
  with True assms show ?thesis by simp
next
  case False
  with assms have gt: "oc < c" by simp
  then have "sgn (c - oc) = 1" by simp
  with gt assms show ?thesis by simp
qed

lemma interval_overlap:
  fixes lo1 hi1 lo2 hi2 :: real
  assumes "0 < (hi1 - lo1) / 2 + (hi2 - lo2) / 2 - \<bar>(lo1 + hi1) * 0.5 - (lo2 + hi2) * 0.5\<bar>"
  shows "lo1 \<le> hi2 \<and> lo2 \<le> hi1"
  using assms by (simp add: abs_if field_simps split: if_splits)

lemma isEmpty_setFromObject: "isEmpty (setFromObject p) = isEmpty (bounds p)"
  by (simp add: isEmpty_def setFromObject_def vadd_def)

lemma getSize_setFromObject: "getSize (setFromObject p) = getSize (bounds p)"
  by (simp add: getSize_def isEmpty_setFromObject)
     (simp add: setFromObject_def vadd_def vsub_def)

lemma getCenter_setFromObject:
  "\<not> isEmpty (bounds p) \<Longrightarrow>
   getCenter (setFromObject p) = vadd (mesh_position p) (getCenter (bounds p))"
  by (simp add: getCenter_def isEmpty_setFromObject)
     (simp add: setFromObject_def vadd_def multiplyScalar_def algebra_simps)

lemma overlapOf_components:
  "vx (overlapOf a b) =
     (vx (getSize a) / 2 + vx (getSize b) / 2) - \<bar>vx (getCenter a) - vx (getCenter b)\<bar>"
  "vy (overlapOf a b) =
     (vy (getSize a) / 2 + vy (getSize b) / 2) - \<bar>vy (getCenter a) - vy (getCenter b)\<bar>"
  "vz (overlapOf a b) =
     (vz (getSize a) / 2 + vz (getSize b) / 2) - \<bar>vz (getCenter a) - vz (getCenter b)\<bar>"
  by (simp_all add: overlapOf_def Let_def)

lemma overlapOf_nonempty:
  assumes "\<not> isEmpty a" "\<not> isEmpty b"
  shows "vx (overlapOf a b) =
           (vx (bmax a) - vx (bmin a)) / 2 + (vx (bmax b) - vx (bmin b)) / 2
             - \<bar>(vx (bmin a) + vx (bmax a)) * 0.5 - (vx (bmin b) + vx (bmax b)) * 0.5\<bar>"
    and "vy (overlapOf a b) =
           (vy (bmax a) - vy (bmin a)) / 2 + (vy (bmax b) - vy (bmin b)) / 2
             - \<bar>(vy (bmin a) + vy (bmax a)) * 0.5 - (vy (bmin b) + vy (bmax b)) * 0.5\<bar>"
    and "vz (overlapOf a b) =
           (vz (bmax a) - vz (bmin a)) / 2 + (vz (bmax b) - vz (bmin b)) / 2
             - \<bar>(vz (bmin a) + vz (bmax a)) * 0.5 - (vz (bmin b) + vz (bmax b)) * 0.5\<bar>"
  using assms
  by (simp_all add: overlapOf_def Let_def getCenter_def getSize_def vadd_def vsub_def
      multiplyScalar_def)

text \<open>For boxes that are not empty, positive overlap on all axes implies \<open>intersectsBox\<close>.\<close>

lemma overlaps_intersects:
  assumes "\<not> isEmpty a" "\<not> isEmpty b" "overlaps a b"
  shows "intersectsBox a b"
proof -
  from assms have
    "0 < (vx (bmax a) - vx (bmin a)) / 2 + (vx (bmax b) - vx (bmin b)) / 2
             - \<bar>(vx (bmin a) + vx (bmax a)) * 0.5 - (vx (bmin b) + vx (bmax b)) * 0.5\<bar>"
    "0 < (vy (bmax a) - vy (bmin a)) / 2 + (vy (bmax b) - vy (bmin b)) / 2
             - \<bar>(vy (bmin a) + vy (bmax a)) * 0.5 - (vy (bmin b) + vy (bmax b)) * 0.5\<bar>"
    "0 < (vz (bmax a) - vz (bmin a)) / 2 + (vz (bmax b) - vz (bmin b)) / 2
             - \<bar>(vz (bmin a) + vz (bmax a)) * 0.5 - (vz (bmin b) + vz (bmax b)) * 0.5\<bar>"
    by (simp_all add: overlaps_def overlapOf_nonempty)
  then have "vx (bmin a) \<le> vx (bmax b) \<and> vx (bmin b) \<le> vx (bmax a)"
    "vy (bmin a) \<le> vy (bmax b) \<and> vy (bmin b) \<le> vy (bmax a)"
    "vz (bmin a) \<le> vz (bmax b) \<and> vz (bmin b) \<le> vz (bmax a)"
    by (simp_all only: interval_overlap)
  then show ?thesis by (simp add: intersectsBox_def)
qed

lemma pushed_size:
  "bounds p' = bounds p \<Longrightarrow> getSize (setFromObject p') = getSize (setFromObject p)"
  by (simp add: getSize_setFromObject)

lemma pushed_center:
  assumes "\<not> isEmpty (bounds p)" "bounds p' = bounds p"
    and "mesh_position p' = addScaledVector (mesh_position p) n k"
  shows "getCenter (setFromObject p') = addScaledVector (getCenter (setFromObject p)) n k"
  using assms
  by (simp add: getCenter_setFromObject) (simp add: vadd_def addScaledVector_def)

text \<open>
  One step leaves the player's box clear of the object it was resolved against, unless the
  two centres coincide on the push axis (then the sign is 0 and nothing moves).
\<close>

lemma resolveCollision_separates:
  assumes ne: "\<not> isEmpty (bounds p)" "\<not> isEmpty b"
    and nz: "overlaps (setFromObject p) b \<longrightarrow> pushNormal (setFromObject p) b \<noteq> Vector3 0 0 0"
  shows "\<not> overlaps (setFromObject (resolveCollision (SceneMesh b) p)) b"
proof (cases "overlaps (setFromObject p) b")
  case False
  then have "setFromObject (resolveCollision (SceneMesh b) p) = setFromObject p"
    by (simp add: resolveCollision_skip setFromObject_def)
  with False show ?thesis by simp
next
  case True
  let ?B = "setFromObject p"
  let ?p' = "resolveCollision (SceneMesh b) p"
  let ?B' = "setFromObject ?p'"
  let ?ov = "overlapOf ?B b"
  let ?m = "min (vx ?ov) (min (vy ?ov) (vz ?ov))"
  let ?n = "pushNormal ?B b"
  have pos: "0 < vx ?ov" "0 < vy ?ov" "0 < vz ?ov"
    using True by (simp_all add: overlaps_def)
  have int: "intersectsBox ?B b"
    using ne True by (simp add: overlaps_intersects isEmpty_setFromObject)
  have mp: "mesh_position ?p' = addScaledVector (mesh_position p) ?n (?m * 1.01)"
    using True int by (simp add: resolveCollision_position)
  have ctr: "getCenter ?B' = addScaledVector (getCenter ?B) ?n (?m * 1.01)"
    by (rule pushed_center [OF ne(1) _ mp]) simp
  have sz: "getSize ?B' = getSize ?B"
    by (rule pushed_size) simp
  have n0: "?n \<noteq> Vector3 0 0 0"
    using nz True by simp
  show ?thesis
  proof (cases "firstMinAxis ?ov")
    case AxisX
    then have m: "?m = vx ?ov" by (rule firstMinAxis_min)
    have n: "?n = Vector3 (sgn (vx (getCenter ?B) - vx (getCenter b))) 0 0"
      using AxisX by (simp add: pushNormal_axis)
    with n0 have d: "vx (getCenter ?B) \<noteq> vx (getCenter b)" by auto
    have e: "(vx (getSize ?B) / 2 + vx (getSize b) / 2) - \<bar>vx (getCenter ?B) - vx (getCenter b)\<bar>
             = vx ?ov"
      by (simp only: overlapOf_components)
    have "vx (overlapOf ?B' b) =
            (vx (getSize ?B) / 2 + vx (getSize b) / 2)
              - \<bar>(vx (getCenter ?B) + sgn (vx (getCenter ?B) - vx (getCenter b)) * (vx ?ov * 1.01))
                   - vx (getCenter b)\<bar>"
      by (simp only: overlapOf_components(1) [of ?B' b] ctr sz n m addScaledVector_def vec3.sel
            mult_zero_left add_0_right)
    also have "\<dots> < 0"
      by (rule axis_separated [OF pos(1) d e])
    finally show ?thesis by (simp add: overlaps_def)
  next
    case AxisY
    then have m: "?m = vy ?ov" by (rule firstMinAxis_min)
    have n: "?n = Vector3 0 (sgn (vy (getCenter ?B) - vy (getCenter b))) 0"
      using AxisY by (simp add: pushNormal_axis)
    with n0 have d: "vy (getCenter ?B) \<noteq> vy (getCenter b)" by auto
    have e: "(vy (getSize ?B) / 2 + vy (getSize b) / 2) - \<bar>vy (getCenter ?B) - vy (getCenter b)\<bar>
             = vy ?ov"
      by (simp only: overlapOf_components)
    have "vy (overlapOf ?B' b) =
            (vy (getSize ?B) / 2 + vy (getSize b) / 2)
              - \<bar>(vy (getCenter ?B) + sgn (vy (getCenter ?B) - vy (getCenter b)) * (vy ?ov * 1.01))
                   - vy (getCenter b)\<bar>"
      by (simp only: overlapOf_components(2) [of ?B' b] ctr sz n m addScaledVector_def vec3.sel
            mult_zero_left add_0_right)
    also have "\<dots> < 0"
      by (rule axis_separated [OF pos(2) d e])
    finally show ?thesis by (simp add: overlaps_def)
  next
    case AxisZ
    then have m: "?m = vz ?ov" by (rule firstMinAxis_min)
    have n: "?n = Vector3 0 0 (sgn (vz (getCenter ?B) - vz (getCenter b)))"
      using AxisZ by (simp add: pushNormal_axis)
    with n0 have d: "vz (getCenter ?B) \<noteq> vz (getCenter b)" by auto
    have e: "(vz (getSize ?B) / 2 + vz (getSize b) / 2) - \<bar>vz (getCenter ?B) - vz (getCenter b)\<bar>
             = vz ?ov"
      by (simp only: overlapOf_components)
    have "vz (overlapOf ?B' b) =
            (vz (getSize ?B) / 2 + vz (getSize b) / 2)
              - \<bar>(vz (getCenter ?B) + sgn (vz (getCenter ?B) - vz (getCenter b)) * (vz ?ov * 1.01))
                   - vz (getCenter b)\<bar>"
      by (simp only: overlapOf_components(3) [of ?B' b] ctr sz n m addScaledVector_def vec3.sel
            mult_zero_left add_0_right)
    also have "\<dots> < 0"
      by (rule axis_separated [OF pos(3) d e])
    finally show ?thesis by (simp add: overlaps_def)
  qed
qed

subsection \<open>The whole pass\<close>

lemma fold_resolveCollision_bounds: "bounds (fold resolveCollision cs p) = bounds p"
  by (induction cs arbitrary: p) simp_all

lemma handleCollisions_last:
  assumes "collisionObjects l = Some (cs @ [obj])"
  shows "hitbox (handleCollisions (Some l) p) =
           setFromObject (resolveCollision obj (fold resolveCollision cs p))"
  using assms by (simp add: handleCollisions_def Let_def setFromObject_def)

lemmas geometry_defs = newPlayer_moveTo moveTo_def initialFields_def playerMeshBounds_def
  setFromObject_def
  handleCollisions_def resolveCollision_def intersectsBox_def overlapOf_def getCenter_def
  getSize_def isEmpty_def vadd_def vsub_def multiplyScalar_def dot_def addScaledVector_def
  minimumOverlap_def takeIfSmaller_def finiteOverlap_def mtvOf_def overlaps_def pushNormal_def
  Let_def

lemma overlapsBeyond_overlaps: "0 \<le> tol \<Longrightarrow> overlapsBeyond tol a b \<Longrightarrow> overlaps a b"
  by (simp add: overlapsBeyond_def overlaps_def)

lemma clear_axis: "\<not> overlaps A b \<Longrightarrow> \<exists>a. axisOverlap a A b \<le> 0"
proof -
  assume "\<not> overlaps A b"
  then consider "vx (overlapOf A b) \<le> 0" | "vy (overlapOf A b) \<le> 0" | "vz (overlapOf A b) \<le> 0"
    by (auto simp: overlaps_def not_less)
  then show ?thesis
  proof cases
    case 1 then have "axisOverlap AxisX A b \<le> 0" by (simp add: axisOverlap_def coord_def)
    then show ?thesis ..
  next
    case 2 then have "axisOverlap AxisY A b \<le> 0" by (simp add: axisOverlap_def coord_def)
    then show ?thesis ..
  next
    case 3 then have "axisOverlap AxisZ A b \<le> 0" by (simp add: axisOverlap_def coord_def)
    then show ?thesis ..
  qed
qed

lemma axisOverlap_eq:
  "axisOverlap a A b =
     (coord a (getSize A) / 2 + coord a (getSize b) / 2) - \<bar>centreGap a A b\<bar>"
  by (cases a) (simp_all add: axisOverlap_def centreGap_def coord_def overlapOf_components)

text \<open>How the centre of the player's box follows the mesh position.\<close>

lemma centreGap_moved:
  assumes "bounds q' = bounds q"
  shows "centreGap a (setFromObject q') b - centreGap a (setFromObject q) b =
           (if isEmpty (bounds q) then 0
            else coord a (mesh_position q') - coord a (mesh_position q))"
proof (cases "isEmpty (bounds q)")
  case True
  with assms show ?thesis
    by (simp add: centreGap_def getCenter_def isEmpty_setFromObject)
next
  case False
  with assms show ?thesis
    by (cases a) (simp_all add: centreGap_def getCenter_setFromObject coord_def vadd_def)
qed

lemma step_keeps_side:
  assumes s: "\<bar>s\<bar> \<le> 1"
    and nb: "\<not> pushesBack a s c q"
  shows "s * centreGap a (setFromObject q) b \<le> s * centreGap a (setFromObject (resolveCollision c q)) b"
proof -
  let ?q' = "resolveCollision c q"
  have d: "centreGap a (setFromObject ?q') b - centreGap a (setFromObject q) b =
           (if isEmpty (bounds q) then 0
            else coord a (mesh_position ?q') - coord a (mesh_position q))"
    by (rule centreGap_moved) simp
  from nb have "0 \<le> s * (coord a (mesh_position ?q') - coord a (mesh_position q))"
    by (simp add: pushesBack_def not_less)
  with d have "0 \<le> s * (centreGap a (setFromObject ?q') b - centreGap a (setFromObject q) b)"
    by (simp split: if_splits)
  then show ?thesis by (simp add: algebra_simps)
qed

lemma fold_keeps_side:
  assumes "\<bar>s\<bar> \<le> 1" and "\<not> laterPushBack a s cs q"
  shows "s * centreGap a (setFromObject q) b
           \<le> s * centreGap a (setFromObject (fold resolveCollision cs q)) b"
  using assms(2)
proof (induction cs arbitrary: q)
  case Nil
  then show ?case by simp
next
  case (Cons c cs)
  then have nb: "\<not> pushesBack a s c q" and rest: "\<not> laterPushBack a s cs (resolveCollision c q)"
    by simp_all
  have "s * centreGap a (setFromObject q) b
          \<le> s * centreGap a (setFromObject (resolveCollision c q)) b"
    using assms(1) nb by (rule step_keeps_side)
  also have "\<dots> \<le> s * centreGap a (setFromObject (fold resolveCollision cs (resolveCollision c q))) b"
    using rest by (rule Cons.IH)
  finally show ?case by simp
qed

lemma getSize_fold: "getSize (setFromObject (fold resolveCollision cs q)) = getSize (setFromObject q)"
  by (simp add: getSize_setFromObject fold_resolveCollision_bounds)

text \<open>
  Through the rest of the pass the overlap with a body on an axis does not grow, unless a
  later body pushes the player back toward it along that axis.
\<close>

lemma fold_overlap_not_grown:
  assumes nb: "\<not> laterPushBack a (sgn (centreGap a (setFromObject q) b)) cs q"
  shows "axisOverlap a (setFromObject (fold resolveCollision cs q)) b
           \<le> axisOverlap a (setFromObject q) b"
proof -
  let ?s = "sgn (centreGap a (setFromObject q) b)"
  let ?qf = "fold resolveCollision cs q"
  have s1: "\<bar>?s\<bar> \<le> 1" by (simp add: abs_sgn_eq)
  have "\<bar>centreGap a (setFromObject q) b\<bar> = ?s * centreGap a (setFromObject q) b"
    by (simp add: abs_sgn mult.commute)
  also have "\<dots> \<le> ?s * centreGap a (setFromObject ?qf) b"
    using s1 nb by (rule fold_keeps_side)
  also have "\<dots> \<le> \<bar>?s * centreGap a (setFromObject ?qf) b\<bar>" by simp
  also have "\<dots> \<le> \<bar>centreGap a (setFromObject ?qf) b\<bar>"
    using s1 by (simp add: abs_mult mult_left_le_one_le)
  finally have "\<bar>centreGap a (setFromObject q) b\<bar> \<le> \<bar>centreGap a (setFromObject ?qf) b\<bar>" .
  then show ?thesis
    by (simp add: axisOverlap_eq getSize_fold)
qed

lemma axisOverlap_within_tolerance:
  "axisOverlap a A b \<le> tol \<Longrightarrow> \<not> overlapsBeyond tol A b"
  by (cases a) (simp_all add: axisOverlap_def coord_def overlapsBeyond_def)

lemma handleCollisions_split:
  assumes "collisionObjects l = Some (pre @ obj # post)"
  shows "hitbox (handleCollisions (Some l) p) =
           setFromObject (fold resolveCollision post (resolveCollision obj (fold resolveCollision pre p)))"
  using assms by (simp add: handleCollisions_def Let_def setFromObject_def)

text \<open>Bodies that do not overlap the player leave it where it is.\<close>

lemma untouched_no_push:
  assumes "\<forall>c \<in> set cs. \<forall>cb. c = SceneMesh cb \<longrightarrow> \<not> overlaps (setFromObject q) cb"
  shows "\<not> laterPushBack a s cs q"
  using assms
proof (induction cs arbitrary: q)
  case Nil
  then show ?case by simp
next
  case (Cons c cs)
  have same: "mesh_position (resolveCollision c q) = mesh_position q"
  proof (cases c)
    case InvalidObject
    then show ?thesis by (simp add: resolveCollision_invalid)
  next
    case (SceneMesh cb)
    with Cons.prems have "\<not> overlaps (setFromObject q) cb" by simp
    with SceneMesh show ?thesis by (simp add: resolveCollision_skip)
  qed
  then have box: "setFromObject (resolveCollision c q) = setFromObject q"
    by (simp add: setFromObject_def)
  have "\<not> pushesBack a s c q"
    by (simp add: pushesBack_def same)
  moreover have "\<not> laterPushBack a s cs (resolveCollision c q)"
    using Cons.prems by (intro Cons.IH) (simp add: box)
  ultimately show ?case by simp
qed

text \<open>
  In particular a body is clear after the pass when, once it has been resolved, none of the
  bodies after it overlaps the player; so is the body processed last.
\<close>

lemma handleCollisions_clears_if_untouched_later:
  assumes l: "collisionObjects l = Some (pre @ SceneMesh b # post)"
    and ne: "\<not> isEmpty (bounds p)" "\<not> isEmpty b"
    and nz: "overlaps (setFromObject (fold resolveCollision pre p)) b \<longrightarrow>
               pushNormal (setFromObject (fold resolveCollision pre p)) b \<noteq> Vector3 0 0 0"
    and later: "\<forall>c \<in> set post. \<forall>cb. c = SceneMesh cb \<longrightarrow>
               \<not> overlaps (setFromObject (resolveCollision (SceneMesh b)
                                              (fold resolveCollision pre p))) cb"
  shows "\<not> overlaps (hitbox (handleCollisions (Some l) p)) b"
proof -
  let ?q0 = "fold resolveCollision pre p"
  let ?qb = "resolveCollision (SceneMesh b) ?q0"
  have "\<not> isEmpty (bounds ?q0)"
    using ne(1) by (simp add: fold_resolveCollision_bounds)
  then have "\<not> overlaps (setFromObject ?qb) b"
    using ne(2) nz by (rule resolveCollision_separates)
  then obtain a where a: "axisOverlap a (setFromObject ?qb) b \<le> 0"
    using clear_axis by blast
  have "\<not> laterPushBack a (sgn (centreGap a (setFromObject ?qb) b)) post ?qb"
    using later by (rule untouched_no_push)
  then have "axisOverlap a (setFromObject (fold resolveCollision post ?qb)) b
               \<le> axisOverlap a (setFromObject ?qb) b"
    by (rule fold_overlap_not_grown)
  with a have "axisOverlap a (setFromObject (fold resolveCollision post ?qb)) b \<le> 0"
    by simp
  then have "\<not> overlapsBeyond 0 (setFromObject (fold resolveCollision post ?qb)) b"
    by (rule axisOverlap_within_tolerance)
  then show ?thesis
    using l by (simp add: handleCollisions_split overlapsBeyond_def overlaps_def)
qed

lemmas pass_defs = coord_def axisOverlap_def centreGap_def pushesBack_def overlapsBeyond_def
  wallEast_def platform_def floorAndWallLevel_def

text \<open>
  Claim C3 as stated fails: the bodies are resolved once each, in list order. Between two
  walls 0.7 apart the player is pushed out of the left wall, then out of the right wall and
  back into the left one, where \<open>handleCollisions\<close> leaves it 0.30302 deep, more than 0.3 on
  every axis.
\<close>

theorem handleCollisions_leaves_overlap:
  "collisionObjects corridorLevel = Some [SceneMesh wallLeft, SceneMesh wallRight] \<and>
   overlaps (hitbox (handleCollisions (Some corridorLevel) (newPlayer (Vector3 0 0 0)))) wallLeft \<and>
   vx (overlapOf (hitbox (handleCollisions (Some corridorLevel) (newPlayer (Vector3 0 0 0))))
         wallLeft) = 0.30302 \<and>
   overlapsBeyond 0.3
     (hitbox (handleCollisions (Some corridorLevel) (newPlayer (Vector3 0 0 0)))) wallLeft"
  by (simp add: corridorLevel_def wallLeft_def wallRight_def overlapsBeyond_def geometry_defs)

text \<open>
  Claim C3, amended, for boxes that are not empty and every tolerance above zero. Right
  after a body has been resolved, the player's box does not overlap it by more than the
  tolerance, provided the two centres differ on the push axis chosen for it. And a body
  whose overlap with the player on some axis is within the tolerance after its turn is
  still not overlapped by more than the tolerance when \<open>handleCollisions\<close> completes,
  provided no body processed after it pushes the player back toward it along that axis.
\<close>

theorem handleCollisions_clears_body:
  "(\<not> isEmpty (bounds q) \<and> \<not> isEmpty b \<and>
    (overlaps (setFromObject q) b \<longrightarrow> pushNormal (setFromObject q) b \<noteq> Vector3 0 0 0) \<and>
    0 < tol \<longrightarrow>
      \<not> overlapsBeyond tol (setFromObject (resolveCollision (SceneMesh b) q)) b) \<and>
   (collisionObjects l = Some (pre @ SceneMesh b # post) \<and>
    axisOverlap a
      (setFromObject (resolveCollision (SceneMesh b) (fold resolveCollision pre p))) b \<le> tol \<and>
    \<not> laterPushBack a
        (sgn (centreGap a
           (setFromObject (resolveCollision (SceneMesh b) (fold resolveCollision pre p))) b))
        post (resolveCollision (SceneMesh b) (fold resolveCollision pre p)) \<longrightarrow>
      \<not> overlapsBeyond tol (hitbox (handleCollisions (Some l) p)) b)"
proof (intro conjI impI)
  assume h: "\<not> isEmpty (bounds q) \<and> \<not> isEmpty b \<and>
    (overlaps (setFromObject q) b \<longrightarrow> pushNormal (setFromObject q) b \<noteq> Vector3 0 0 0) \<and>
    0 < tol"
  then have "\<not> overlaps (setFromObject (resolveCollision (SceneMesh b) q)) b"
    by (intro resolveCollision_separates) simp_all
  moreover from h have "0 \<le> tol" by simp
  ultimately show "\<not> overlapsBeyond tol (setFromObject (resolveCollision (SceneMesh b) q)) b"
    using overlapsBeyond_overlaps by blast
next
  let ?qb = "resolveCollision (SceneMesh b) (fold resolveCollision pre p)"
  assume h: "collisionObjects l = Some (pre @ SceneMesh b # post) \<and>
    axisOverlap a (setFromObject ?qb) b \<le> tol \<and>
    \<not> laterPushBack a (sgn (centreGap a (setFromObject ?qb) b)) post ?qb"
  then have "axisOverlap a (setFromObject (fold resolveCollision post ?qb)) b
               \<le> axisOverlap a (setFromObject ?qb) b"
    by (intro fold_overlap_not_grown) simp
  with h have "axisOverlap a (setFromObject (fold resolveCollision post ?qb)) b \<le> tol"
    by simp
  then have "\<not> overlapsBeyond tol (setFromObject (fold resolveCollision post ?qb)) b"
    by (rule axisOverlap_within_tolerance)
  then show "\<not> overlapsBeyond tol (hitbox (handleCollisions (Some l) p)) b"
    using h by (simp add: handleCollisions_split)
qed

theorem handleCollisions_clears_body_witness:
  "\<not> isEmpty (bounds (fold resolveCollision [SceneMesh wallLeft] (newPlayer (Vector3 0 0 0)))) \<and>
   \<not> isEmpty wallRight \<and>
   overlaps (setFromObject (fold resolveCollision [SceneMesh wallLeft] (newPlayer (Vector3 0 0 0))))
      wallRight \<and>
   pushNormal (setFromObject (fold resolveCollision [SceneMesh wallLeft] (newPlayer (Vector3 0 0 0))))
      wallRight = Vector3 (-1) 0 0 \<and>
   \<not> overlapsBeyond (1 / 1000000)
       (setFromObject (resolveCollision (SceneMesh wallRight)
          (fold resolveCollision [SceneMesh wallLeft] (newPlayer (Vector3 0 0 0))))) wallRight \<and>
   collisionObjects floorAndWallLevel = Some ([] @ SceneMesh platform # [SceneMesh wallEast]) \<and>
   overlaps (setFromObject (newPlayer (Vector3 0 (-0.1) 0))) platform \<and>
   axisOverlap AxisY
     (setFromObject (resolveCollision (SceneMesh platform) (newPlayer (Vector3 0 (-0.1) 0))))
     platform = - 0.0035 \<and>
   \<not> laterPushBack AxisY 1 [SceneMesh wallEast]
       (resolveCollision (SceneMesh platform) (newPlayer (Vector3 0 (-0.1) 0))) \<and>
   mesh_position (handleCollisions (Some floorAndWallLevel) (newPlayer (Vector3 0 (-0.1) 0)))
     = Vector3 (-0.202) 0.2535 0 \<and>
   \<not> overlapsBeyond (1 / 1000000)
       (hitbox (handleCollisions (Some floorAndWallLevel) (newPlayer (Vector3 0 (-0.1) 0))))
       platform"
  using handleCollisions_clears_body
    [where q = "fold resolveCollision [SceneMesh wallLeft] (newPlayer (Vector3 0 0 0))"
       and b = wallRight and tol = "1 / 1000000" and l = corridorLevel and pre = "[]"
       and post = "[]" and p = "newPlayer (Vector3 0 0 0)" and a = AxisX]
    handleCollisions_clears_body
    [where q = "newPlayer (Vector3 0 0 0)" and b = platform and tol = "1 / 1000000"
       and l = floorAndWallLevel and pre = "[]" and post = "[SceneMesh wallEast]"
       and p = "newPlayer (Vector3 0 (-0.1) 0)" and a = AxisY]
  by (simp add: wallLeft_def wallRight_def pass_defs geometry_defs)

text \<open>
  Claim C4 at a pair whose centres coincide on the axis of least overlap: the player at the
  origin and a slab centred on \<open>x = 0\<close> overlap by 0.6 on x, 5.25 on y and 5.5 on z, so x is
  the push axis; the sign of the centre difference is 0, the player is not moved, and the
  boxes still overlap.
\<close>

theorem resolveCollision_aligned_centres_no_push:
  "intersectsBox (setFromObject (newPlayer (Vector3 0 0 0))) pillar \<and>
   overlapOf (setFromObject (newPlayer (Vector3 0 0 0))) pillar = Vector3 0.6 5.25 5.5 \<and>
   minimumOverlap (overlapOf (setFromObject (newPlayer (Vector3 0 0 0))) pillar)
     = (Some 0.6, Some AxisX) \<and>
   mesh_position (resolveCollision (SceneMesh pillar) (newPlayer (Vector3 0 0 0))) = Vector3 0 0 0 \<and>
   overlaps (setFromObject (resolveCollision (SceneMesh pillar) (newPlayer (Vector3 0 0 0)))) pillar"
  by (simp add: pillar_def geometry_defs)

end
